theory Spec2Isabelle
  imports Main "HOL-Library.AList"
begin

section \<open>Python values and the object store\<close>

text \<open>
  The module \<^verbatim>\<open>spacepy/datamodel.py\<close> attaches a metadata mapping \<^verbatim>\<open>attrs\<close> to numpy
  arrays (\<^verbatim>\<open>dmarray\<close>) and to dictionaries (\<^verbatim>\<open>SpaceData\<close>).  Python dictionaries are
  mutable objects that are passed by reference, so they live in a store and a value
  refers to them by address.  The value universe is: \<^verbatim>\<open>None\<close>, integers, strings, lists
  of strings (the type of \<^verbatim>\<open>Allowed_Attributes\<close>) and references to string-keyed
  dictionaries.
\<close>

type_synonym addr = nat

datatype pyval = PyNone | PyInt int | PyStr string | PyList "string list" | PyRef addr

text \<open>A dictionary keeps its items in insertion order; the store is the list of all
  dictionary objects created so far, an address is a position in it.\<close>

type_synonym dict = "(string \<times> pyval) list"

type_synonym heap = "dict list"

text \<open>\<^verbatim>\<open>DisallowedAttribute\<close> is the \<^verbatim>\<open>TypeError\<close> raised by \<^verbatim>\<open>dmarray.__setattr__\<close>
  itself; \<^verbatim>\<open>TypeError\<close>, \<^verbatim>\<open>AttributeError\<close> and \<^verbatim>\<open>ValueError\<close> are raised by Python's
  own operations.\<close>

datatype pyerror = DisallowedAttribute | TypeError | AttributeError | ValueError

text \<open>An address that was never allocated reads as the empty dictionary, which is also
  the content of a newly created one.\<close>

definition deref :: "heap \<Rightarrow> addr \<Rightarrow> dict" where
  "deref h a = (if a < length h then h ! a else [])"

text \<open>The expression \<^verbatim>\<open>{}\<close>: a new, empty dictionary object.\<close>

definition new_dict :: "heap \<Rightarrow> pyval \<times> heap" where
  "new_dict h = (PyRef (length h), h @ [[]])"

text \<open>The statement \<^verbatim>\<open>d[k] = v\<close> on the dictionary object at address \<open>a\<close>.\<close>

definition dict_setitem :: "heap \<Rightarrow> addr \<Rightarrow> string \<Rightarrow> pyval \<Rightarrow> heap" where
  "dict_setitem h a k v =
     (if a < length h then h[a := AList.update k v (h ! a)]
      else h @ replicate (a - length h) [] @ [[(k, v)]])"

text \<open>\<^verbatim>\<open>name in s\<close> for two strings is the substring test.\<close>

fun is_substring :: "string \<Rightarrow> string \<Rightarrow> bool" where
  "is_substring n [] = (n = [])"
| "is_substring n (c # cs) = (take (length n) (c # cs) = n \<or> is_substring n cs)"

text \<open>\<^verbatim>\<open>name in x\<close>, for a string \<^verbatim>\<open>name\<close>.\<close>

fun py_contains :: "heap \<Rightarrow> string \<Rightarrow> pyval \<Rightarrow> pyerror + bool" where
  "py_contains h name (PyList xs) = Inr (name \<in> set xs)"
| "py_contains h name (PyStr s) = Inr (is_substring name s)"
| "py_contains h name (PyRef a) = Inr (name \<in> set (map fst (deref h a)))"
| "py_contains h name PyNone = Inl TypeError"
| "py_contains h name (PyInt i) = Inl TypeError"

text \<open>The items that \<^verbatim>\<open>for val in x\<close> runs through.\<close>

fun py_iter :: "heap \<Rightarrow> pyval \<Rightarrow> pyerror + string list" where
  "py_iter h (PyList xs) = Inr xs"
| "py_iter h (PyStr s) = Inr (map (\<lambda>c. [c]) s)"
| "py_iter h (PyRef a) = Inr (map fst (deref h a))"
| "py_iter h PyNone = Inl TypeError"
| "py_iter h (PyInt i) = Inl TypeError"

text \<open>\<^verbatim>\<open>x + [name]\<close>: only a list can be concatenated with a list.\<close>

fun py_add_list :: "pyval \<Rightarrow> string list \<Rightarrow> pyerror + pyval" where
  "py_add_list (PyList xs) ys = Inr (PyList (xs @ ys))"
| "py_add_list x ys = Inl TypeError"

text \<open>\<^verbatim>\<open>hasattr(x, '__getitem__')\<close>: dictionaries, lists and strings support item
  access, \<^verbatim>\<open>None\<close> and integers do not.\<close>

fun has_getitem :: "pyval \<Rightarrow> bool" where
  "has_getitem (PyRef a) = True"
| "has_getitem (PyList xs) = True"
| "has_getitem (PyStr s) = True"
| "has_getitem PyNone = False"
| "has_getitem (PyInt i) = False"

text \<open>\<^verbatim>\<open>str(n)\<close> for a non-negative integer.\<close>

definition digit :: "nat \<Rightarrow> char" where
  "digit d = ''0123456789'' ! d"

function str_nat :: "nat \<Rightarrow> string" where
  "str_nat n = (if n < 10 then [digit n] else str_nat (n div 10) @ [digit (n mod 10)])"
  by pat_completeness auto
termination
  by (relation "measure id") auto

declare str_nat.simps [simp del]


section \<open>dmarray\<close>

text \<open>The array part of an instance belongs to numpy: its shape, its element type and
  its flat buffer.\<close>

record ndarray =
  shape :: "nat list"
  dtype :: string
  buffer :: "int list"

text \<open>A \<^verbatim>\<open>dmarray\<close> is the array together with the instance dictionary \<^verbatim>\<open>__dict__\<close>.
  Attribute names range over the names an instance dictionary can hold; the methods of
  the class and numpy's own members (\<^verbatim>\<open>shape\<close>, \<^verbatim>\<open>dtype\<close>, ...), which numpy reads and
  writes by itself, are not among them.\<close>

record dmarray =
  nd :: ndarray
  inst_dict :: "string \<rightharpoonup> pyval"

text \<open>The class attribute \<^verbatim>\<open>Allowed_Attributes = ['attrs']\<close>.\<close>

definition Allowed_Attributes :: pyval where
  "Allowed_Attributes = PyList [''attrs'']"

text \<open>Attribute lookup \<^verbatim>\<open>self.name\<close>: the instance dictionary first, then the class.\<close>

definition getattribute :: "dmarray \<Rightarrow> string \<Rightarrow> pyerror + pyval" where
  "getattribute self name =
     (case inst_dict self name of
        Some v \<Rightarrow> Inr v
      | None \<Rightarrow> if name = ''Allowed_Attributes'' then Inr Allowed_Attributes
                else Inl AttributeError)"

text \<open>\<^verbatim>\<open>self.Allowed_Attributes\<close> always finds a value.\<close>

definition allowed :: "dmarray \<Rightarrow> pyval" where
  "allowed self =
     (case inst_dict self ''Allowed_Attributes'' of Some v \<Rightarrow> v | None \<Rightarrow> Allowed_Attributes)"

text \<open>\<^verbatim>\<open>super(dmarray, self).__setattr__(name, value)\<close> binds the name in the instance
  dictionary.\<close>

definition object_setattr :: "dmarray \<Rightarrow> string \<Rightarrow> pyval \<Rightarrow> dmarray" where
  "object_setattr self name v = self\<lparr>inst_dict := (inst_dict self)(name \<mapsto> v)\<rparr>"

text \<open>\<^verbatim>\<open>dmarray.__setattr__\<close>, lines 90 to 101.\<close>

definition dmarray_setattr :: "heap \<Rightarrow> dmarray \<Rightarrow> string \<Rightarrow> pyval \<Rightarrow> pyerror + dmarray" where
  "dmarray_setattr h self name v =
     (if name = ''Allowed_Attributes'' then Inr (object_setattr self name v)
      else case py_contains h name (allowed self) of
             Inl e \<Rightarrow> Inl e
           | Inr False \<Rightarrow> Inl DisallowedAttribute
           | Inr True \<Rightarrow> Inr (object_setattr self name v))"

text \<open>The second argument of \<^verbatim>\<open>__array_finalize__\<close>: \<^verbatim>\<open>None\<close>, a plain numpy array, or an
  instance of \<^verbatim>\<open>dmarray\<close>.\<close>

datatype source = NoSource | PlainArray ndarray | Instance dmarray

text \<open>\<^verbatim>\<open>getattr(obj, val, d)\<close>.\<close>

fun getattr_default :: "source \<Rightarrow> string \<Rightarrow> pyval \<Rightarrow> pyval" where
  "getattr_default NoSource name d = d"
| "getattr_default (PlainArray a) name d = d"
| "getattr_default (Instance a) name d =
     (case getattribute a name of Inr v \<Rightarrow> v | Inl e \<Rightarrow> d)"

text \<open>The loop of \<^verbatim>\<open>__array_finalize__\<close>, lines 60 and 61.  The default \<^verbatim>\<open>{}\<close> is an
  argument of the call, so a new dictionary is created in every round.\<close>

fun finalize_loop :: "heap \<Rightarrow> dmarray \<Rightarrow> source \<Rightarrow> string list \<Rightarrow> pyerror + (dmarray \<times> heap)" where
  "finalize_loop h self obj [] = Inr (self, h)"
| "finalize_loop h self obj (val # vals) =
     (case new_dict h of (d, h') \<Rightarrow>
        (case dmarray_setattr h' self val (getattr_default obj val d) of
           Inl e \<Rightarrow> Inl e
         | Inr self' \<Rightarrow> finalize_loop h' self' obj vals))"

text \<open>\<^verbatim>\<open>dmarray.__array_finalize__\<close>, lines 56 to 61.\<close>

definition dmarray_array_finalize :: "heap \<Rightarrow> dmarray \<Rightarrow> source \<Rightarrow> pyerror + (dmarray \<times> heap)" where
  "dmarray_array_finalize h self obj =
     (case obj of
        NoSource \<Rightarrow> Inr (self, h)
      | _ \<Rightarrow> (case py_iter h (allowed self) of
                Inl e \<Rightarrow> Inl e
              | Inr vals \<Rightarrow> finalize_loop h self obj vals))"

text \<open>numpy creates every new instance of the class with an empty instance dictionary
  and calls \<^verbatim>\<open>__array_finalize__\<close> on it at once.\<close>

definition new_instance :: "ndarray \<Rightarrow> dmarray" where
  "new_instance a = \<lparr>nd = a, inst_dict = Map.empty\<rparr>"

text \<open>\<^verbatim>\<open>a.view(dmarray)\<close> on a plain array \<open>a\<close>.\<close>

definition view :: "heap \<Rightarrow> ndarray \<Rightarrow> pyerror + (dmarray \<times> heap)" where
  "view h a = dmarray_array_finalize h (new_instance a) (PlainArray a)"

text \<open>A slice, sub-view, cast or ufunc output of an instance \<open>a\<close>: numpy makes the new
  array \<open>a'\<close> and passes \<open>a\<close> as the source.\<close>

definition derive :: "heap \<Rightarrow> ndarray \<Rightarrow> dmarray \<Rightarrow> pyerror + (dmarray \<times> heap)" where
  "derive h a' a = dmarray_array_finalize h (new_instance a') (Instance a)"

text \<open>\<^verbatim>\<open>dmarray.__new__\<close>, lines 44 to 54.  \<^verbatim>\<open>numpy.asarray\<close> is numpy's coercion of the
  input and may fail; it is a parameter.\<close>

definition dmarray_new ::
  "('x \<Rightarrow> pyerror + ndarray) \<Rightarrow> heap \<Rightarrow> 'x \<Rightarrow> pyval \<Rightarrow> pyerror + (dmarray \<times> heap)" where
  "dmarray_new asarray h input_array attrs =
     (case asarray input_array of
        Inl e \<Rightarrow> Inl e
      | Inr a \<Rightarrow>
         (case view h a of
            Inl e \<Rightarrow> Inl e
          | Inr (obj, h1) \<Rightarrow>
             if attrs \<noteq> PyNone then
               (case dmarray_setattr h1 obj ''attrs'' attrs of
                  Inl e \<Rightarrow> Inl e
                | Inr obj' \<Rightarrow> Inr (obj', h1))
             else
               (case new_dict h1 of (d, h2) \<Rightarrow>
                  (case dmarray_setattr h2 obj ''attrs'' d of
                     Inl e \<Rightarrow> Inl e
                   | Inr obj' \<Rightarrow> Inr (obj', h2)))))"

text \<open>The list comprehension of \<^verbatim>\<open>__reduce__\<close>, line 72.\<close>

fun getattributes :: "dmarray \<Rightarrow> string list \<Rightarrow> pyerror + pyval list" where
  "getattributes self [] = Inr []"
| "getattributes self (val # vals) =
     (case getattribute self val of
        Inl e \<Rightarrow> Inl e
      | Inr v \<Rightarrow> (case getattributes self vals of
                   Inl e \<Rightarrow> Inl e
                 | Inr vs \<Rightarrow> Inr (v # vs)))"

text \<open>\<^verbatim>\<open>numpy.ndarray.__reduce__\<close> and \<^verbatim>\<open>numpy.ndarray.__setstate__\<close> are numpy's: the
  state slot of the first is the array's shape, element type and buffer, and the second
  puts them back.\<close>

definition ndarray_reduce :: "dmarray \<Rightarrow> ndarray" where
  "ndarray_reduce self = nd self"

definition ndarray_setstate :: "dmarray \<Rightarrow> ndarray \<Rightarrow> dmarray" where
  "ndarray_setstate self nd_state = self\<lparr>nd := nd_state\<rparr>"

text \<open>The state slot that \<^verbatim>\<open>dmarray.__reduce__\<close> (lines 63 to 74) stores in place of
  numpy's: the pair of numpy's state and the tuple of attribute values.\<close>

type_synonym state = "ndarray \<times> pyval list"

definition dmarray_reduce :: "heap \<Rightarrow> dmarray \<Rightarrow> pyerror + state" where
  "dmarray_reduce h self =
     (case py_iter h (allowed self) of
        Inl e \<Rightarrow> Inl e
      | Inr vals \<Rightarrow>
         (case getattributes self vals of
            Inl e \<Rightarrow> Inl e
          | Inr subclass_state \<Rightarrow> Inr (ndarray_reduce self, subclass_state)))"

text \<open>The loop of \<^verbatim>\<open>__setstate__\<close>, lines 83 to 88: \<open>val\<close> is the index and the list holds
  \<^verbatim>\<open>own_state[val:]\<close>.  The assignment to \<^verbatim>\<open>self.Allowed_Attributes\<close> goes through
  \<^verbatim>\<open>__setattr__\<close> as well.\<close>

fun setstate_loop :: "heap \<Rightarrow> dmarray \<Rightarrow> nat \<Rightarrow> pyval list \<Rightarrow> pyerror + dmarray" where
  "setstate_loop h self val [] = Inr self"
| "setstate_loop h self val (x # xs) =
     (if val = 0 then
        (case dmarray_setattr h self ''attrs'' x of
           Inl e \<Rightarrow> Inl e
         | Inr self' \<Rightarrow> setstate_loop h self' (Suc val) xs)
      else
        (case py_add_list (allowed self) [''extra_attr_'' @ str_nat val] of
           Inl e \<Rightarrow> Inl e
         | Inr al \<Rightarrow>
            (case dmarray_setattr h self ''Allowed_Attributes'' al of
               Inl e \<Rightarrow> Inl e
             | Inr self1 \<Rightarrow>
                (case dmarray_setattr h self1 (''extra_attr_'' @ str_nat val) x of
                   Inl e \<Rightarrow> Inl e
                 | Inr self2 \<Rightarrow> setstate_loop h self2 (Suc val) xs))))"

text \<open>\<^verbatim>\<open>dmarray.__setstate__\<close>, lines 76 to 88.\<close>

definition dmarray_setstate :: "heap \<Rightarrow> dmarray \<Rightarrow> state \<Rightarrow> pyerror + dmarray" where
  "dmarray_setstate h self st =
     (case st of (nd_state, own_state) \<Rightarrow>
        setstate_loop h (ndarray_setstate self nd_state) 0 own_state)"

text \<open>Unpickling: numpy's \<^verbatim>\<open>_reconstruct\<close> makes an empty instance of the class, which is
  finalized with no source, and \<^verbatim>\<open>__setstate__\<close> is called on it with the stored state.
  The state is taken as \<^verbatim>\<open>__reduce__\<close> built it: the byte encoding that pickle puts in
  between copies the dictionaries and changes none of their items.\<close>

definition empty_array :: ndarray where
  "empty_array = \<lparr>shape = [0], dtype = ''b'', buffer = []\<rparr>"

definition deserialize :: "heap \<Rightarrow> state \<Rightarrow> pyerror + (dmarray \<times> heap)" where
  "deserialize h st =
     (case dmarray_array_finalize h (new_instance empty_array) NoSource of
        Inl e \<Rightarrow> Inl e
      | Inr (obj, h') \<Rightarrow>
         (case dmarray_setstate h' obj st of
            Inl e \<Rightarrow> Inl e
          | Inr obj' \<Rightarrow> Inr (obj', h')))"

text \<open>What \<^verbatim>\<open>x == m\<close> compares when \<open>x\<close> is a dictionary: its items, as a mapping.\<close>

definition mapping_of :: "heap \<Rightarrow> pyval \<Rightarrow> (string \<rightharpoonup> pyval) option" where
  "mapping_of h x = (case x of PyRef a \<Rightarrow> Some (map_of (deref h a)) | _ \<Rightarrow> None)"

text \<open>The array of the module's docstring, \<^verbatim>\<open>[1, 2, 3]\<close>.\<close>

definition example_array :: ndarray where
  "example_array = \<lparr>shape = [3], dtype = ''int64'', buffer = [1, 2, 3]\<rparr>"

text \<open>The instance that \<^verbatim>\<open>dmarray([1, 2, 3])\<close> returns when the store is empty.\<close>

definition example_instance :: dmarray where
  "example_instance = object_setattr (new_instance example_array) ''attrs'' (PyRef 1)"

text \<open>An instance whose \<^verbatim>\<open>attrs\<close> is the dictionary at address 0, the array of the slice
  \<^verbatim>\<open>[1:]\<close> of it, and the instance derived for that slice.\<close>

definition example_source :: dmarray where
  "example_source = object_setattr (new_instance example_array) ''attrs'' (PyRef 0)"

definition example_slice :: ndarray where
  "example_slice = \<lparr>shape = [2], dtype = ''int64'', buffer = [2, 3]\<rparr>"

definition example_derived :: dmarray where
  "example_derived = object_setattr (new_instance example_slice) ''attrs'' (PyRef 0)"

text \<open>An instance as the module builds it: \<^verbatim>\<open>Allowed_Attributes\<close> can be iterated and
  begins with \<^verbatim>\<open>attrs\<close>, and every attribute it lists is set.\<close>

definition complete_instance :: "heap \<Rightarrow> dmarray \<Rightarrow> bool" where
  "complete_instance h self =
     (case py_iter h (allowed self) of
        Inr (n # ns) \<Rightarrow> n = ''attrs'' \<and> (\<forall>m\<in>set (n # ns). inst_dict self m \<noteq> None)
      | _ \<Rightarrow> False)"

text \<open>What an observer sees of a value: the items of a dictionary, and the value itself
  otherwise.  Two values with the same observation are equal for \<^verbatim>\<open>==\<close>.\<close>

definition observe :: "heap \<Rightarrow> pyval \<Rightarrow> pyval + (string \<rightharpoonup> pyval)" where
  "observe h x = (case x of PyRef a \<Rightarrow> Inr (map_of (deref h a)) | _ \<Rightarrow> Inl x)"

text \<open>The mapping that \<^verbatim>\<open>self.attrs\<close> refers to, if the attribute is set and is a
  dictionary.\<close>

definition attrs_mapping :: "heap \<Rightarrow> dmarray \<Rightarrow> (string \<rightharpoonup> pyval) option" where
  "attrs_mapping h self =
     (case inst_dict self ''attrs'' of Some x \<Rightarrow> mapping_of h x | None \<Rightarrow> None)"

text \<open>The statement \<^verbatim>\<open>self.attrs[k] = v\<close>.\<close>

definition attrs_setitem :: "heap \<Rightarrow> dmarray \<Rightarrow> string \<Rightarrow> pyval \<Rightarrow> pyerror + heap" where
  "attrs_setitem h self k v =
     (case getattribute self ''attrs'' of
        Inl e \<Rightarrow> Inl e
      | Inr (PyRef a) \<Rightarrow> Inr (dict_setitem h a k v)
      | Inr x \<Rightarrow> Inl TypeError)"


section \<open>SpaceData\<close>

text \<open>A \<^verbatim>\<open>SpaceData\<close> is a dictionary with one more attribute, \<^verbatim>\<open>attrs\<close>.\<close>

record SpaceData =
  sd_items :: dict
  sd_attrs :: pyval

text \<open>\<^verbatim>\<open>d.update(pairs)\<close>: later pairs overwrite earlier ones.\<close>

definition dict_update :: "dict \<Rightarrow> (string \<times> pyval) list \<Rightarrow> dict" where
  "dict_update d kvs = fold (\<lambda>(k, v). AList.update k v) kvs d"

text \<open>An iterable of strings as an iterable of pairs: every string must have exactly
  two characters, the key and the value.\<close>

fun pairs_of :: "string list \<Rightarrow> pyerror + (string \<times> pyval) list" where
  "pairs_of [] = Inr []"
| "pairs_of (s # ss) =
     (case s of
        [k, v] \<Rightarrow> (case pairs_of ss of
                     Inl e \<Rightarrow> Inl e
                   | Inr kvs \<Rightarrow> Inr (([k], PyStr [v]) # kvs))
      | _ \<Rightarrow> Inl ValueError)"

text \<open>Python's \<^verbatim>\<open>dict.__init__(self, *args, **kwargs)\<close>: at most one positional
  argument, a mapping or an iterable of pairs, then the keyword pairs.\<close>

fun dict_init :: "heap \<Rightarrow> pyval list \<Rightarrow> (string \<times> pyval) list \<Rightarrow> pyerror + dict" where
  "dict_init h [] kwargs = Inr (dict_update [] kwargs)"
| "dict_init h [PyRef a] kwargs = Inr (dict_update (deref h a) kwargs)"
| "dict_init h [PyList xs] kwargs =
     (case pairs_of xs of
        Inl e \<Rightarrow> Inl e
      | Inr kvs \<Rightarrow> Inr (dict_update (dict_update [] kvs) kwargs))"
| "dict_init h [PyStr s] kwargs =
     (case pairs_of (map (\<lambda>c. [c]) s) of
        Inl e \<Rightarrow> Inl e
      | Inr kvs \<Rightarrow> Inr (dict_update (dict_update [] kvs) kwargs))"
| "dict_init h [PyNone] kwargs = Inl TypeError"
| "dict_init h [PyInt i] kwargs = Inl TypeError"
| "dict_init h (x # y # zs) kwargs = Inl TypeError"

text \<open>\<^verbatim>\<open>SpaceData.__init__\<close>, lines 116 to 129.  The keyword arguments are the list of
  (name, value) pairs of the call.\<close>

definition SpaceData_init ::
  "heap \<Rightarrow> pyval list \<Rightarrow> (string \<times> pyval) list \<Rightarrow> pyerror + (SpaceData \<times> heap)" where
  "SpaceData_init h args kwargs =
     (case new_dict h of (d, h') \<Rightarrow>
        let self0 = \<lparr>sd_items = [], sd_attrs = d\<rparr>;
            self1 = (if ''attrs'' \<in> set (map fst kwargs)
                     then (if has_getitem (the (map_of kwargs ''attrs''))
                           then self0\<lparr>sd_attrs := the (map_of kwargs ''attrs'')\<rparr>
                           else self0)
                     else self0);
            kwargs1 = (if ''attrs'' \<in> set (map fst kwargs)
                       then AList.delete ''attrs'' kwargs else kwargs)
        in case dict_init h' args kwargs1 of
             Inl e \<Rightarrow> Inl e
           | Inr c \<Rightarrow> Inr (self1\<lparr>sd_items := c\<rparr>, h'))"


section \<open>The store only grows\<close>

lemma deref_append_empty: "\<forall>d\<in>set ds. d = [] \<Longrightarrow> deref (h @ ds) a = deref h a"
  by (simp add: deref_def nth_append)

lemma observe_append_empty: "\<forall>d\<in>set ds. d = [] \<Longrightarrow> observe (h @ ds) x = observe h x"
  by (cases x) (simp_all add: observe_def deref_append_empty)

lemma deref_new_dict: "deref (h @ [[]]) a = deref h a"
  by (simp add: deref_append_empty)

lemma observe_new_dict: "observe (h @ [[]]) x = observe h x"
  by (cases x) (simp_all add: observe_def deref_new_dict)

lemma mapping_of_new_dict: "mapping_of (h @ [[]]) x = mapping_of h x"
  by (cases x) (simp_all add: mapping_of_def deref_new_dict)


section \<open>Setting attributes of a new instance\<close>

lemma allowed_new_instance: "allowed (new_instance a) = PyList [''attrs'']"
  by (simp add: allowed_def new_instance_def Allowed_Attributes_def)

lemma allowed_object_setattr:
  "name \<noteq> ''Allowed_Attributes'' \<Longrightarrow> allowed (object_setattr self name v) = allowed self"
  by (simp add: allowed_def object_setattr_def)

lemma setattr_attrs_class_list:
  "allowed self = PyList [''attrs''] \<Longrightarrow>
   dmarray_setattr h self ''attrs'' v = Inr (object_setattr self ''attrs'' v)"
  by (simp add: dmarray_setattr_def)

lemma finalize_class_list:
  "allowed self = PyList [''attrs''] \<Longrightarrow> obj \<noteq> NoSource \<Longrightarrow>
   dmarray_array_finalize h self obj =
     Inr (object_setattr self ''attrs'' (getattr_default obj ''attrs'' (PyRef (length h))), h @ [[]])"
  by (cases obj) (simp_all add: dmarray_array_finalize_def new_dict_def setattr_attrs_class_list)

lemma object_setattr_twice:
  "object_setattr (object_setattr self name v) name w = object_setattr self name w"
  by (simp add: object_setattr_def)

lemma setattr_attrs_again:
  "dmarray_setattr h (object_setattr (new_instance a) ''attrs'' v) ''attrs'' w =
     Inr (object_setattr (new_instance a) ''attrs'' w)"
  by (simp add: setattr_attrs_class_list allowed_object_setattr allowed_new_instance
        object_setattr_twice)

lemma view_new:
  "view h a = Inr (object_setattr (new_instance a) ''attrs'' (PyRef (length h)), h @ [[]])"
  by (simp add: view_def finalize_class_list allowed_new_instance)

lemma derive_new_instance:
  "derive h a' a =
     Inr (object_setattr (new_instance a') ''attrs''
            (getattr_default (Instance a) ''attrs'' (PyRef (length h))), h @ [[]])"
  by (simp add: derive_def finalize_class_list allowed_new_instance)

lemma dmarray_new_attrs:
  "asarray x = Inr a \<Longrightarrow> m \<noteq> PyNone \<Longrightarrow>
   dmarray_new asarray h x m = Inr (object_setattr (new_instance a) ''attrs'' m, h @ [[]])"
  by (simp add: dmarray_new_def view_new setattr_attrs_again)

lemma dmarray_new_default:
  "asarray x = Inr a \<Longrightarrow>
   dmarray_new asarray h x PyNone =
     Inr (object_setattr (new_instance a) ''attrs'' (PyRef (Suc (length h))), h @ [[], []])"
  by (simp add: dmarray_new_def view_new setattr_attrs_again new_dict_def)

lemma finalize_no_source: "dmarray_array_finalize h self NoSource = Inr (self, h)"
  by (simp add: dmarray_array_finalize_def)


section \<open>The derivation hook\<close>

text \<open>
  Claim C6.  \<^verbatim>\<open>__array_finalize__\<close> on a new instance never raises, whatever the source
  is: \<^verbatim>\<open>None\<close>, a plain array or any instance of the class.  Applied a second time with
  the same source it succeeds again and leaves the array and every attribute as the first
  application did (a dictionary is compared by its items).  When the source is a plain
  array, or an instance on which \<^verbatim>\<open>attrs\<close> is not set, the new instance's \<^verbatim>\<open>attrs\<close> is an
  empty mapping.
\<close>

theorem array_finalize_total_idempotent:
  "\<exists>d1 h1. dmarray_array_finalize h (new_instance a) obj = Inr (d1, h1) \<and>
     (\<exists>d2 h2. dmarray_array_finalize h1 d1 obj = Inr (d2, h2) \<and> nd d2 = nd d1 \<and>
        (\<forall>n. map_option (observe h2) (inst_dict d2 n) = map_option (observe h1) (inst_dict d1 n))) \<and>
     ((case obj of NoSource \<Rightarrow> False | PlainArray p \<Rightarrow> True
        | Instance s \<Rightarrow> inst_dict s ''attrs'' = None) \<longrightarrow>
      attrs_mapping h1 d1 = Some Map.empty)"
proof (cases "obj = NoSource")
  case True
  then show ?thesis by (simp add: finalize_no_source)
next
  case False
  let ?v = "getattr_default obj ''attrs'' (PyRef (length h))"
  let ?d1 = "object_setattr (new_instance a) ''attrs'' ?v"
  let ?h1 = "h @ [[]]"
  let ?w = "getattr_default obj ''attrs'' (PyRef (length ?h1))"
  have one: "dmarray_array_finalize h (new_instance a) obj = Inr (?d1, ?h1)"
    using False by (simp add: finalize_class_list allowed_new_instance)
  have al: "allowed ?d1 = PyList [''attrs'']"
    by (simp add: allowed_object_setattr allowed_new_instance)
  have two: "dmarray_array_finalize ?h1 ?d1 obj = Inr (object_setattr ?d1 ''attrs'' ?w, ?h1 @ [[]])"
    using False al by (simp add: finalize_class_list)
  have same: "observe (?h1 @ [[]]) ?w = observe ?h1 ?v"
  proof (cases obj)
    case (Instance s)
    then show ?thesis
      by (cases "inst_dict s ''attrs''")
         (simp_all add: getattribute_def observe_append_empty,
          simp add: observe_def deref_def nth_append)
  qed (simp_all add: observe_def deref_def nth_append)
  have obs: "\<forall>n. map_option (observe (?h1 @ [[]])) (inst_dict (object_setattr ?d1 ''attrs'' ?w) n) =
                 map_option (observe ?h1) (inst_dict ?d1 n)"
    using same by (simp add: object_setattr_def new_instance_def)
  have nd_same: "nd (object_setattr ?d1 ''attrs'' ?w) = nd ?d1"
    by (simp add: object_setattr_def)
  have lacks: "(case obj of NoSource \<Rightarrow> False | PlainArray p \<Rightarrow> True
        | Instance s \<Rightarrow> inst_dict s ''attrs'' = None) \<longrightarrow> attrs_mapping ?h1 ?d1 = Some Map.empty"
    by (cases obj)
       (auto simp: attrs_mapping_def mapping_of_def object_setattr_def getattribute_def deref_def)
  show ?thesis
    using one two obs nd_same lacks by blast
qed

theorem array_finalize_total_idempotent_witness:
  "\<exists>d1 h1. dmarray_array_finalize [] (new_instance empty_array) (PlainArray empty_array)
              = Inr (d1, h1) \<and>
           attrs_mapping h1 d1 = Some Map.empty"
  using array_finalize_total_idempotent [of "[]" empty_array "PlainArray empty_array"]
  by auto

text \<open>
  Claim C1.  When \<^verbatim>\<open>a.attrs\<close> is a mapping \<open>m\<close> (for instance \<^verbatim>\<open>{"k": "v"}\<close>), every
  instance derived from \<open>a\<close>, whatever its array \<open>a'\<close> is (a slice, a sub-view, a cast,
  the output of a ufunc), is created without error, and right after its creation its
  \<^verbatim>\<open>attrs\<close> is the value of \<^verbatim>\<open>a.attrs\<close> and is the mapping \<open>m\<close>.
\<close>

theorem derive_preserves_attrs:
  assumes "attrs_mapping h a = Some m"
  shows "\<exists>d h'. derive h a' a = Inr (d, h') \<and> inst_dict d ''attrs'' = inst_dict a ''attrs'' \<and>
           attrs_mapping h' d = Some m"
proof -
  from assms obtain x where x: "inst_dict a ''attrs'' = Some x" and m: "mapping_of h x = Some m"
    by (auto simp: attrs_mapping_def split: option.splits)
  let ?d = "object_setattr (new_instance a') ''attrs'' x"
  have "derive h a' a = Inr (?d, h @ [[]])"
    using x by (simp add: derive_new_instance getattribute_def)
  moreover have "inst_dict ?d ''attrs'' = inst_dict a ''attrs''"
    using x by (simp add: object_setattr_def)
  moreover have "attrs_mapping (h @ [[]]) ?d = Some m"
    using m by (simp add: attrs_mapping_def object_setattr_def mapping_of_new_dict)
  ultimately show ?thesis by blast
qed

theorem derive_preserves_attrs_witness:
  "attrs_mapping [[(''k'', PyStr ''v'')]]
     (object_setattr (new_instance example_array) ''attrs'' (PyRef 0))
     = Some [''k'' \<mapsto> PyStr ''v''] \<and>
   (\<exists>d h'. derive [[(''k'', PyStr ''v'')]] \<lparr>shape = [2], dtype = ''int64'', buffer = [2, 3]\<rparr>
              (object_setattr (new_instance example_array) ''attrs'' (PyRef 0)) = Inr (d, h') \<and>
            attrs_mapping h' d = Some [''k'' \<mapsto> PyStr ''v''])"
proof -
  have h: "attrs_mapping [[(''k'', PyStr ''v'')]]
             (object_setattr (new_instance example_array) ''attrs'' (PyRef 0))
           = Some [''k'' \<mapsto> PyStr ''v'']"
    by (simp add: attrs_mapping_def mapping_of_def object_setattr_def deref_def)
  show ?thesis
    using h derive_preserves_attrs [OF h, of "\<lparr>shape = [2], dtype = ''int64'', buffer = [2, 3]\<rparr>"]
    by blast
qed


section \<open>Construction\<close>

text \<open>
  Claim C7.  When numpy accepts the input \<open>x\<close> as the array \<open>a\<close>, \<^verbatim>\<open>dmarray(x, attrs=m)\<close>
  with \<open>m\<close> other than \<^verbatim>\<open>None\<close> (every mapping is) returns an instance on the array \<open>a\<close>
  whose \<^verbatim>\<open>attrs\<close> is \<open>m\<close>, with the items \<open>m\<close> had before the call; and \<^verbatim>\<open>dmarray(x)\<close>
  returns an instance on \<open>a\<close> whose \<^verbatim>\<open>attrs\<close> is an empty mapping.
\<close>

theorem new_sets_attrs:
  assumes "asarray x = Inr a"
  shows "(m \<noteq> PyNone \<longrightarrow>
            (\<exists>obj h'. dmarray_new asarray h x m = Inr (obj, h') \<and> nd obj = a \<and>
               inst_dict obj ''attrs'' = Some m \<and> attrs_mapping h' obj = mapping_of h m)) \<and>
         (\<exists>obj h'. dmarray_new asarray h x PyNone = Inr (obj, h') \<and> nd obj = a \<and>
               attrs_mapping h' obj = Some Map.empty)"
proof -
  have "nd (object_setattr (new_instance a) ''attrs'' v) = a" for v
    by (simp add: object_setattr_def new_instance_def)
  moreover have "inst_dict (object_setattr (new_instance a) ''attrs'' v) ''attrs'' = Some v" for v
    by (simp add: object_setattr_def)
  moreover have "attrs_mapping (h @ [[]]) (object_setattr (new_instance a) ''attrs'' v)
                   = mapping_of h v" for v
    by (simp add: attrs_mapping_def object_setattr_def mapping_of_new_dict)
  moreover have "attrs_mapping (h @ [[], []])
                   (object_setattr (new_instance a) ''attrs'' (PyRef (Suc (length h)))) = Some Map.empty"
    by (simp add: attrs_mapping_def mapping_of_def object_setattr_def deref_def nth_append)
  ultimately show ?thesis
    using assms by (simp add: dmarray_new_attrs dmarray_new_default)
qed

theorem new_sets_attrs_witness:
  "(Inr example_array :: pyerror + ndarray) = Inr example_array \<and>
   (\<exists>obj h'. dmarray_new Inr [[(''coord_system'', PyStr ''GSM'')]] example_array (PyRef 0)
                = Inr (obj, h') \<and>
              inst_dict obj ''attrs'' = Some (PyRef 0) \<and>
              attrs_mapping h' obj = Some [''coord_system'' \<mapsto> PyStr ''GSM'']) \<and>
   (\<exists>obj h'. dmarray_new Inr [[(''coord_system'', PyStr ''GSM'')]] example_array PyNone
                = Inr (obj, h') \<and>
              attrs_mapping h' obj = Some Map.empty)"
proof -
  have h: "(Inr example_array :: pyerror + ndarray) = Inr example_array" by simp
  have m: "mapping_of [[(''coord_system'', PyStr ''GSM'')]] (PyRef 0)
             = Some [''coord_system'' \<mapsto> PyStr ''GSM'']"
    by (simp add: mapping_of_def deref_def)
  show ?thesis
    using h m
      new_sets_attrs [where asarray = "Inr :: ndarray \<Rightarrow> pyerror + ndarray"
        and x = example_array and a = example_array and m = "PyRef 0"
        and h = "[[(''coord_system'', PyStr ''GSM'')]]"]
    by auto
qed


section \<open>The attribute gate\<close>

lemma str_nat_1: "str_nat 1 = ''1''" by (simp add: str_nat.simps digit_def)
lemma str_nat_2: "str_nat 2 = ''2''" by (simp add: str_nat.simps digit_def)
lemma str_nat_Suc0: "str_nat (Suc 0) = ''1''" using str_nat_1 by simp

lemma setattr_Allowed_Attributes:
  "dmarray_setattr h self ''Allowed_Attributes'' v = Inr (object_setattr self ''Allowed_Attributes'' v)"
  by (simp add: dmarray_setattr_def)

lemma allowed_set: "allowed (object_setattr self ''Allowed_Attributes'' v) = v"
  by (simp add: allowed_def object_setattr_def)

lemma setattr_listed:
  "allowed self = PyList al \<Longrightarrow> name \<in> set al \<Longrightarrow>
   dmarray_setattr h self name v = Inr (object_setattr self name v)"
  by (simp add: dmarray_setattr_def)

lemma setattr_not_listed:
  "allowed self = PyList al \<Longrightarrow> name \<notin> set al \<Longrightarrow> name \<noteq> ''Allowed_Attributes'' \<Longrightarrow>
   dmarray_setattr h self name v = Inl DisallowedAttribute"
  by (simp add: dmarray_setattr_def)

lemma example_instance_new:
  "dmarray_new Inr [] example_array PyNone = Inr (example_instance, [[], []])"
  by (simp add: dmarray_new_default example_instance_def)

text \<open>
  Claim C3, as stated, fails: on the instance that \<^verbatim>\<open>dmarray([1, 2, 3])\<close> returns, setting
  the attribute \<^verbatim>\<open>Allowed_Attributes\<close> succeeds, although that name is neither \<^verbatim>\<open>attrs\<close> nor
  in the instance's allow-list.
\<close>

theorem setattr_gate_counterexample:
  "dmarray_new Inr [] example_array PyNone = Inr (example_instance, [[], []]) \<and>
   dmarray_setattr [[], []] example_instance ''Allowed_Attributes'' (PyList [''attrs'', ''foo''])
     = Inr (object_setattr example_instance ''Allowed_Attributes'' (PyList [''attrs'', ''foo''])) \<and>
   ''Allowed_Attributes'' \<noteq> ''attrs'' \<and>
   py_contains [[], []] ''Allowed_Attributes'' (allowed example_instance) = Inr False"
  by (simp add: example_instance_new setattr_Allowed_Attributes example_instance_def
        allowed_object_setattr allowed_new_instance)

text \<open>
  Claim C3, amended.  \<^verbatim>\<open>__setattr__(name, value)\<close> succeeds exactly when \<^verbatim>\<open>name\<close> is
  \<^verbatim>\<open>Allowed_Attributes\<close> or \<^verbatim>\<open>name\<close> is in the instance's current allow-list.  It either
  binds the name on the instance or raises and binds nothing; for a name other than
  \<^verbatim>\<open>Allowed_Attributes\<close> that is not in the allow-list it raises the disallowed-attribute
  error (the third outcome is the \<^verbatim>\<open>TypeError\<close> of Python's \<^verbatim>\<open>in\<close> when the allow-list is
  no container).
  On an instance that the constructor has just returned, setting \<^verbatim>\<open>foo\<close> raises the
  disallowed-attribute error and setting \<^verbatim>\<open>attrs\<close> succeeds.
\<close>

theorem setattr_gate:
  "((\<exists>self'. dmarray_setattr h self name v = Inr self') \<longleftrightarrow>
      (name = ''Allowed_Attributes'' \<or> py_contains h name (allowed self) = Inr True)) \<and>
   (dmarray_setattr h self name v = Inr (object_setattr self name v) \<or>
    dmarray_setattr h self name v = Inl DisallowedAttribute \<or>
    dmarray_setattr h self name v = Inl TypeError) \<and>
   (name \<noteq> ''Allowed_Attributes'' \<and> py_contains h name (allowed self) = Inr False \<longrightarrow>
      dmarray_setattr h self name v = Inl DisallowedAttribute) \<and>
   (dmarray_new asarray h0 x m = Inr (self, h) \<longrightarrow>
      dmarray_setattr h self ''foo'' (PyInt 1) = Inl DisallowedAttribute \<and>
      dmarray_setattr h self ''attrs'' v = Inr (object_setattr self ''attrs'' v))"
proof -
  have gate: "(\<exists>self'. dmarray_setattr h self name v = Inr self') \<longleftrightarrow>
      (name = ''Allowed_Attributes'' \<or> py_contains h name (allowed self) = Inr True)"
    by (auto simp: dmarray_setattr_def split: sum.splits bool.splits)
  have outcome: "dmarray_setattr h self name v = Inr (object_setattr self name v) \<or>
    dmarray_setattr h self name v = Inl DisallowedAttribute \<or>
    dmarray_setattr h self name v = Inl TypeError"
    by (cases "allowed self") (auto simp: dmarray_setattr_def split: bool.splits)
  have refused: "name \<noteq> ''Allowed_Attributes'' \<and> py_contains h name (allowed self) = Inr False \<longrightarrow>
      dmarray_setattr h self name v = Inl DisallowedAttribute"
    by (simp add: dmarray_setattr_def)
  have fresh: "dmarray_setattr h self ''foo'' (PyInt 1) = Inl DisallowedAttribute \<and>
      dmarray_setattr h self ''attrs'' v = Inr (object_setattr self ''attrs'' v)"
    if new: "dmarray_new asarray h0 x m = Inr (self, h)"
  proof -
    from new obtain a where a: "asarray x = Inr a"
      by (cases "asarray x") (simp_all add: dmarray_new_def)
    have "\<exists>w. self = object_setattr (new_instance a) ''attrs'' w"
      using new a by (cases "m = PyNone") (auto simp: dmarray_new_attrs dmarray_new_default)
    then have "allowed self = PyList [''attrs'']"
      by (auto simp: allowed_object_setattr allowed_new_instance)
    then show ?thesis
      by (simp add: setattr_listed setattr_not_listed)
  qed
  show ?thesis using gate outcome refused fresh by blast
qed

theorem setattr_gate_witness:
  "dmarray_new Inr [] example_array PyNone = Inr (example_instance, [[], []]) \<and>
   ''foo'' \<noteq> ''Allowed_Attributes'' \<and>
   py_contains [[], []] ''foo'' (allowed example_instance) = Inr False \<and>
   dmarray_setattr [[], []] example_instance ''foo'' (PyInt 1) = Inl DisallowedAttribute \<and>
   dmarray_setattr [[], []] example_instance ''attrs'' (PyRef 0)
     = Inr (object_setattr example_instance ''attrs'' (PyRef 0))"
  using example_instance_new
    setattr_gate [where asarray = "Inr :: ndarray \<Rightarrow> pyerror + ndarray" and ?h0.0 = "[]"
      and x = example_array and m = PyNone and self = example_instance and h = "[[], []]"
      and v = "PyRef 0" and name = "''foo''"]
  by (simp add: example_instance_def allowed_object_setattr allowed_new_instance)


section \<open>Pickling\<close>

text \<open>
  Claim C4.  Unpickling a state whose attribute tuple has three slots gives an instance
  on the stored array with \<^verbatim>\<open>attrs\<close> from slot 0, \<^verbatim>\<open>extra_attr_1\<close> from slot 1 and
  \<^verbatim>\<open>extra_attr_2\<close> from slot 2; its allow-list is
  \<^verbatim>\<open>['attrs', 'extra_attr_1', 'extra_attr_2']\<close>, and setting \<^verbatim>\<open>extra_attr_1\<close> afterwards
  succeeds.
\<close>

theorem deserialize_extra_attrs:
  "\<exists>b. deserialize h (s, [x0, x1, x2]) = Inr (b, h) \<and> nd b = s \<and>
        inst_dict b ''attrs'' = Some x0 \<and>
        inst_dict b ''extra_attr_1'' = Some x1 \<and>
        inst_dict b ''extra_attr_2'' = Some x2 \<and>
        allowed b = PyList [''attrs'', ''extra_attr_1'', ''extra_attr_2''] \<and>
        dmarray_setattr h b ''extra_attr_1'' newval = Inr (object_setattr b ''extra_attr_1'' newval)"
  by (simp add: deserialize_def finalize_no_source dmarray_setstate_def ndarray_setstate_def
        new_instance_def dmarray_setattr_def allowed_def Allowed_Attributes_def object_setattr_def
        str_nat_Suc0 str_nat_2 numeral_2_eq_2 [symmetric])


lemma extra_attr_neq [simp]:
  "''extra_attr_'' @ s \<noteq> ''Allowed_Attributes''" "''extra_attr_'' @ s \<noteq> ''attrs''"
  by simp_all

lemma getattributes_all_set:
  "\<forall>n\<in>set ns. inst_dict self n \<noteq> None \<Longrightarrow>
   getattributes self ns = Inr (map (\<lambda>n. the (inst_dict self n)) ns)"
  by (induction ns) (auto simp: getattribute_def)

lemma setstate_loop_extra:
  "0 < val \<Longrightarrow> allowed self = PyList al \<Longrightarrow> \<forall>n\<in>set al. inst_dict self n \<noteq> None \<Longrightarrow>
   \<exists>self' more. setstate_loop h self val xs = Inr self' \<and> nd self' = nd self \<and>
           inst_dict self' ''attrs'' = inst_dict self ''attrs'' \<and>
           allowed self' = PyList (al @ more) \<and>
           (\<forall>n\<in>set (al @ more). inst_dict self' n \<noteq> None)"
proof (induction xs arbitrary: self val al)
  case Nil
  then show ?case by auto
next
  case (Cons x xs)
  let ?n = "''extra_attr_'' @ str_nat val"
  let ?s1 = "object_setattr self ''Allowed_Attributes'' (PyList (al @ [?n]))"
  let ?s2 = "object_setattr ?s1 ?n x"
  have a1: "allowed ?s1 = PyList (al @ [?n])" by (simp add: allowed_set)
  have a2: "allowed ?s2 = PyList (al @ [?n])" by (simp add: allowed_object_setattr allowed_set)
  have set2: "\<forall>n\<in>set (al @ [?n]). inst_dict ?s2 n \<noteq> None"
    using Cons.prems(3) by (simp add: object_setattr_def)
  have step: "setstate_loop h self val (x # xs) = setstate_loop h ?s2 (Suc val) xs"
    using Cons.prems(1,2) by (simp add: dmarray_setattr_def allowed_set)
  from Cons.IH [of "Suc val" ?s2 "al @ [?n]", OF _ a2 set2]
  obtain self' more where r: "setstate_loop h ?s2 (Suc val) xs = Inr self'" "nd self' = nd ?s2"
    "inst_dict self' ''attrs'' = inst_dict ?s2 ''attrs''"
    "allowed self' = PyList ((al @ [?n]) @ more)"
    "\<forall>n\<in>set ((al @ [?n]) @ more). inst_dict self' n \<noteq> None" by blast
  have "nd self' = nd self" "inst_dict self' ''attrs'' = inst_dict self ''attrs''"
    using r(2,3) by (simp_all add: object_setattr_def)
  moreover have "allowed self' = PyList (al @ (?n # more))" using r(4) by simp
  moreover have "\<forall>n\<in>set (al @ (?n # more)). inst_dict self' n \<noteq> None" using r(5) by simp
  ultimately show ?case using step r(1) by metis
qed

lemma deserialize_nonempty:
  "\<exists>b more. deserialize h (s, x0 # rest) = Inr (b, h) \<and> nd b = s \<and>
        inst_dict b ''attrs'' = Some x0 \<and> allowed b = PyList (''attrs'' # more) \<and>
        (\<forall>n\<in>set (''attrs'' # more). inst_dict b n \<noteq> None)"
proof -
  let ?s0 = "ndarray_setstate (new_instance empty_array) s"
  let ?s1 = "object_setattr ?s0 ''attrs'' x0"
  have a0: "allowed ?s0 = PyList [''attrs'']"
    by (simp add: allowed_def ndarray_setstate_def new_instance_def Allowed_Attributes_def)
  have a1: "allowed ?s1 = PyList [''attrs'']"
    by (simp add: allowed_object_setattr a0)
  have set1: "\<forall>n\<in>set [''attrs'']. inst_dict ?s1 n \<noteq> None"
    by (simp add: object_setattr_def)
  from setstate_loop_extra [of "Suc 0" ?s1 "[''attrs'']" h rest, OF _ a1 set1]
  obtain b more where b: "setstate_loop h ?s1 (Suc 0) rest = Inr b" "nd b = nd ?s1"
    "inst_dict b ''attrs'' = inst_dict ?s1 ''attrs''" "allowed b = PyList ([''attrs''] @ more)"
    "\<forall>n\<in>set ([''attrs''] @ more). inst_dict b n \<noteq> None" by blast
  have "deserialize h (s, x0 # rest) = Inr (b, h)"
    using b(1) a0 by (simp add: deserialize_def finalize_no_source dmarray_setstate_def
        setattr_attrs_class_list)
  moreover have "nd b = s" "inst_dict b ''attrs'' = Some x0"
    using b(2,3) by (simp_all add: object_setattr_def ndarray_setstate_def new_instance_def)
  ultimately show ?thesis using b(4,5) by auto
qed

lemma complete_instance_object_setattr:
  "complete_instance h (object_setattr (new_instance a) ''attrs'' v)"
proof -
  have al: "allowed (object_setattr (new_instance a) ''attrs'' v) = PyList [''attrs'']"
    by (simp add: allowed_object_setattr allowed_new_instance)
  have "inst_dict (object_setattr (new_instance a) ''attrs'' v) ''attrs'' = Some v"
    by (simp add: object_setattr_def)
  then show ?thesis
    by (simp add: complete_instance_def al)
qed

lemma complete_instance_new:
  "dmarray_new asarray h x m = Inr (obj, h') \<Longrightarrow> complete_instance h' obj"
proof -
  assume new: "dmarray_new asarray h x m = Inr (obj, h')"
  then obtain a where a: "asarray x = Inr a"
    by (cases "asarray x") (simp_all add: dmarray_new_def)
  have "\<exists>w. obj = object_setattr (new_instance a) ''attrs'' w"
    using new a by (cases "m = PyNone") (auto simp: dmarray_new_attrs dmarray_new_default)
  then show ?thesis by (auto simp: complete_instance_object_setattr)
qed

lemma complete_instance_derive:
  "derive h a' a = Inr (d, h') \<Longrightarrow> complete_instance h' d"
  by (auto simp: derive_new_instance complete_instance_object_setattr)

lemma complete_instance_deserialize:
  "deserialize h (s, x0 # rest) = Inr (b, h') \<Longrightarrow> complete_instance h' b"
  using deserialize_nonempty [of h s x0 rest] by (auto simp: complete_instance_def)

text \<open>
  Claim C2.  For an instance \<open>a\<close> as the module builds it (see \<open>complete_instance\<close>:
  the constructor, a derivation and unpickling all give one), \<^verbatim>\<open>__reduce__\<close> returns a
  state, unpickling that state returns an instance \<open>b\<close>, the array of \<open>b\<close> (shape,
  element type, buffer) is the array of \<open>a\<close>, and \<^verbatim>\<open>b.attrs\<close> is \<^verbatim>\<open>a.attrs\<close>; \<open>b\<close> is
  again such an instance.
\<close>

theorem reduce_setstate_roundtrip:
  assumes "complete_instance h a"
  shows "\<exists>st b. dmarray_reduce h a = Inr st \<and> deserialize h st = Inr (b, h) \<and>
             nd b = nd a \<and> inst_dict b ''attrs'' = inst_dict a ''attrs'' \<and>
             attrs_mapping h b = attrs_mapping h a \<and> complete_instance h b"
proof -
  from assms obtain names where it: "py_iter h (allowed a) = Inr (''attrs'' # names)"
    and all_set: "\<forall>n\<in>set (''attrs'' # names). inst_dict a n \<noteq> None"
    by (auto simp: complete_instance_def split: sum.splits list.splits)
  from all_set obtain x0 where x0: "inst_dict a ''attrs'' = Some x0" by auto
  let ?rest = "map (\<lambda>n. the (inst_dict a n)) names"
  have red: "dmarray_reduce h a = Inr (nd a, x0 # ?rest)"
    using it x0 getattributes_all_set [OF all_set]
    by (simp add: dmarray_reduce_def ndarray_reduce_def)
  from deserialize_nonempty [of h "nd a" x0 ?rest]
  obtain b more where b: "deserialize h (nd a, x0 # ?rest) = Inr (b, h)" "nd b = nd a"
    "inst_dict b ''attrs'' = Some x0" "allowed b = PyList (''attrs'' # more)"
    "\<forall>n\<in>set (''attrs'' # more). inst_dict b n \<noteq> None" by blast
  have "attrs_mapping h b = attrs_mapping h a"
    using b(3) x0 by (simp add: attrs_mapping_def)
  moreover have "complete_instance h b"
    using b(4,5) by (simp add: complete_instance_def)
  ultimately show ?thesis using red b(1,2,3) x0 by simp
qed

theorem reduce_setstate_roundtrip_witness:
  "complete_instance [[(''k'', PyStr ''v'')]]
     (object_setattr (new_instance example_array) ''attrs'' (PyRef 0)) \<and>
   (\<exists>st b. dmarray_reduce [[(''k'', PyStr ''v'')]]
              (object_setattr (new_instance example_array) ''attrs'' (PyRef 0)) = Inr st \<and>
            deserialize [[(''k'', PyStr ''v'')]] st = Inr (b, [[(''k'', PyStr ''v'')]]) \<and>
            nd b = example_array \<and>
            attrs_mapping [[(''k'', PyStr ''v'')]] b = Some [''k'' \<mapsto> PyStr ''v''])"
proof -
  have h: "complete_instance [[(''k'', PyStr ''v'')]]
     (object_setattr (new_instance example_array) ''attrs'' (PyRef 0))"
    by (rule complete_instance_object_setattr)
  have m: "attrs_mapping [[(''k'', PyStr ''v'')]]
             (object_setattr (new_instance example_array) ''attrs'' (PyRef 0))
           = Some [''k'' \<mapsto> PyStr ''v'']"
    by (simp add: attrs_mapping_def mapping_of_def object_setattr_def deref_def)
  have n: "nd (object_setattr (new_instance example_array) ''attrs'' (PyRef 0)) = example_array"
    by (simp add: object_setattr_def new_instance_def)
  show ?thesis
    using h m n reduce_setstate_roundtrip [OF h] by auto
qed


section \<open>Aliasing of the metadata\<close>

lemma map_of_deref_setitem:
  "map_of (deref (dict_setitem h a k v) a) = (map_of (deref h a))(k \<mapsto> v)"
  by (simp add: deref_def dict_setitem_def nth_append update_conv')

text \<open>
  Claim C5, as stated, fails: after a derivation, the item assignment
  \<^verbatim>\<open>derived.attrs['x'] = 1\<close> changes the mapping that the source's \<^verbatim>\<open>attrs\<close> shows, from
  \<^verbatim>\<open>{'k': 'v'}\<close> to \<^verbatim>\<open>{'k': 'v', 'x': 1}\<close>.
\<close>

theorem derive_shares_attrs_counterexample:
  "derive [[(''k'', PyStr ''v'')], []] example_slice example_source
     = Inr (example_derived, [[(''k'', PyStr ''v'')], [], []]) \<and>
   attrs_setitem [[(''k'', PyStr ''v'')], [], []] example_derived ''x'' (PyInt 1)
     = Inr [[(''k'', PyStr ''v''), (''x'', PyInt 1)], [], []] \<and>
   attrs_mapping [[(''k'', PyStr ''v'')], [], []] example_source
     = Some [''k'' \<mapsto> PyStr ''v''] \<and>
   attrs_mapping [[(''k'', PyStr ''v''), (''x'', PyInt 1)], [], []] example_source
     = Some [''k'' \<mapsto> PyStr ''v'', ''x'' \<mapsto> PyInt 1] \<and>
   attrs_mapping [[(''k'', PyStr ''v''), (''x'', PyInt 1)], [], []] example_source
     \<noteq> attrs_mapping [[(''k'', PyStr ''v'')], [], []] example_source"
proof -
  have d: "derive [[(''k'', PyStr ''v'')], []] example_slice example_source
     = Inr (example_derived, [[(''k'', PyStr ''v'')], [], []])"
    by (simp add: derive_new_instance example_source_def example_derived_def getattribute_def
          object_setattr_def)
  have s: "attrs_setitem [[(''k'', PyStr ''v'')], [], []] example_derived ''x'' (PyInt 1)
     = Inr [[(''k'', PyStr ''v''), (''x'', PyInt 1)], [], []]"
    by (simp add: attrs_setitem_def example_derived_def getattribute_def object_setattr_def
          dict_setitem_def)
  have m1: "attrs_mapping [[(''k'', PyStr ''v'')], [], []] example_source
     = Some [''k'' \<mapsto> PyStr ''v'']"
    by (simp add: attrs_mapping_def mapping_of_def example_source_def object_setattr_def deref_def)
  have m2: "attrs_mapping [[(''k'', PyStr ''v''), (''x'', PyInt 1)], [], []] example_source
     = Some [''k'' \<mapsto> PyStr ''v'', ''x'' \<mapsto> PyInt 1]"
    by (auto simp: attrs_mapping_def mapping_of_def example_source_def object_setattr_def
          deref_def fun_eq_iff)
  have "[''k'' \<mapsto> PyStr ''v'', ''x'' \<mapsto> PyInt 1] ''x'' \<noteq> [''k'' \<mapsto> PyStr ''v''] ''x''"
    by simp
  then have "[''k'' \<mapsto> PyStr ''v'', ''x'' \<mapsto> PyInt 1] \<noteq> [''k'' \<mapsto> PyStr ''v'']"
    by metis
  then show ?thesis using d s m1 m2 by simp
qed

text \<open>
  Claim C5, amended.  When \<^verbatim>\<open>a.attrs\<close> is a dictionary, the instance derived from \<open>a\<close>
  holds the same dictionary object, not a copy: an item assignment through the derived
  instance's \<^verbatim>\<open>attrs\<close> and the same assignment through the source's \<^verbatim>\<open>attrs\<close> give the
  same store, and afterwards both instances show the same mapping, with the new item.
\<close>

theorem derive_shares_attrs:
  assumes "inst_dict a ''attrs'' = Some (PyRef r)"
  shows "\<exists>d h1. derive h a' a = Inr (d, h1) \<and> inst_dict d ''attrs'' = Some (PyRef r) \<and>
           (\<exists>h2. attrs_setitem h1 d k v = Inr h2 \<and> attrs_setitem h1 a k v = Inr h2 \<and>
                  attrs_mapping h2 a = Some ((map_of (deref h1 r))(k \<mapsto> v)) \<and>
                  attrs_mapping h2 d = attrs_mapping h2 a)"
proof -
  let ?d = "object_setattr (new_instance a') ''attrs'' (PyRef r)"
  let ?h1 = "h @ [[]]"
  let ?h2 = "dict_setitem ?h1 r k v"
  have der: "derive h a' a = Inr (?d, ?h1)"
    using assms by (simp add: derive_new_instance getattribute_def)
  have dd: "inst_dict ?d ''attrs'' = Some (PyRef r)"
    by (simp add: object_setattr_def)
  have s1: "attrs_setitem ?h1 ?d k v = Inr ?h2"
    using dd by (simp add: attrs_setitem_def getattribute_def)
  have s2: "attrs_setitem ?h1 a k v = Inr ?h2"
    using assms by (simp add: attrs_setitem_def getattribute_def)
  have ma: "attrs_mapping ?h2 a = Some ((map_of (deref ?h1 r))(k \<mapsto> v))"
    using assms by (simp add: attrs_mapping_def mapping_of_def map_of_deref_setitem)
  have md: "attrs_mapping ?h2 ?d = attrs_mapping ?h2 a"
    using assms dd by (simp add: attrs_mapping_def)
  show ?thesis using der dd s1 s2 ma md by blast
qed

theorem derive_shares_attrs_witness:
  "inst_dict example_source ''attrs'' = Some (PyRef 0) \<and>
   (\<exists>d h1. derive [[(''k'', PyStr ''v'')], []] example_slice example_source = Inr (d, h1) \<and>
      inst_dict d ''attrs'' = Some (PyRef 0) \<and>
      (\<exists>h2. attrs_setitem h1 d ''x'' (PyInt 1) = Inr h2 \<and>
             attrs_mapping h2 example_source = attrs_mapping h2 d))"
proof -
  have h: "inst_dict example_source ''attrs'' = Some (PyRef 0)"
    by (simp add: example_source_def object_setattr_def)
  show ?thesis
    using h derive_shares_attrs [OF h, of "[[(''k'', PyStr ''v'')], []]" example_slice "''x''" "PyInt 1"]
    by metis
qed


section \<open>Construction of a SpaceData\<close>

lemma dict_update_Nil: "dict_update d [] = d"
  by (simp add: dict_update_def)

lemma dict_update_Cons: "dict_update d ((k, v) # kvs) = dict_update (AList.update k v d) kvs"
  by (simp add: dict_update_def)

lemma keys_dict_update: "fst ` set (dict_update d kvs) = fst ` set d \<union> fst ` set kvs"
proof (induction kvs arbitrary: d)
  case Nil
  then show ?case by (simp add: dict_update_Nil)
next
  case (Cons kv kvs)
  obtain k v where kv: "kv = (k, v)" by (cases kv)
  show ?case
    by (simp add: kv dict_update_Cons Cons.IH dom_update)
qed

lemma map_of_dict_update_other:
  "k \<notin> fst ` set kvs \<Longrightarrow> map_of (dict_update d kvs) k = map_of d k"
proof (induction kvs arbitrary: d)
  case Nil
  then show ?case by (simp add: dict_update_Nil)
next
  case (Cons kv kvs)
  obtain k' v where kv: "kv = (k', v)" by (cases kv)
  from Cons.prems have "k \<noteq> k'" "k \<notin> fst ` set kvs" by (auto simp: kv)
  then show ?case
    by (simp add: kv dict_update_Cons Cons.IH update_conv')
qed

lemma dict_init_new_dict: "dict_init (h @ [[]]) args kwargs = dict_init h args kwargs"
  by (induction h args kwargs rule: dict_init.induct) (simp_all add: deref_new_dict)

lemma dict_init_split:
  "dict_init h args [] = Inr c0 \<Longrightarrow> dict_init h args kwargs = Inr (dict_update c0 kwargs)"
  by (induction h args kwargs rule: dict_init.induct)
     (auto simp: dict_update_Nil split: sum.splits)

lemma attrs_not_in_delete: "''attrs'' \<notin> fst ` set (AList.delete ''attrs'' kwargs)"
  by (auto simp: AList.delete_eq)

lemma SpaceData_init_no_keyword:
  "''attrs'' \<notin> fst ` set kwargs \<Longrightarrow>
   SpaceData_init h args kwargs =
     (case dict_init h args kwargs of
        Inl e \<Rightarrow> Inl e
      | Inr c \<Rightarrow> Inr (\<lparr>sd_items = c, sd_attrs = PyRef (length h)\<rparr>, h @ [[]]))"
  by (simp add: SpaceData_init_def new_dict_def dict_init_new_dict split: sum.splits)

lemma SpaceData_init_keyword:
  "map_of kwargs ''attrs'' = Some m \<Longrightarrow>
   SpaceData_init h args kwargs =
     (case dict_init h args (AList.delete ''attrs'' kwargs) of
        Inl e \<Rightarrow> Inl e
      | Inr c \<Rightarrow> Inr (\<lparr>sd_items = c,
                       sd_attrs = (if has_getitem m then m else PyRef (length h))\<rparr>, h @ [[]]))"
proof -
  assume m: "map_of kwargs ''attrs'' = Some m"
  then have "''attrs'' \<in> fst ` set kwargs"
    by (metis domI dom_map_of_conv_image_fst)
  then show ?thesis
    using m by (simp add: SpaceData_init_def new_dict_def dict_init_new_dict split: sum.splits)
qed

text \<open>
  Claim C8.  With an \<^verbatim>\<open>attrs\<close> keyword \<open>m\<close> that supports item access (every mapping
  does), \<^verbatim>\<open>SpaceData(d, attrs=m)\<close> for a dictionary \<open>d\<close> returns a \<^verbatim>\<open>SpaceData\<close> whose items
  are those of \<open>d\<close> and whose \<^verbatim>\<open>attrs\<close> is \<open>m\<close>, unchanged; \<^verbatim>\<open>SpaceData(attrs=m)\<close> returns
  one with no items and \<^verbatim>\<open>attrs\<close> \<open>m\<close>.  The witness is the claim's example:
  \<^verbatim>\<open>SpaceData({"x": 1}, attrs={"unit": "km"})\<close>.
\<close>

theorem SpaceData_init_stores_entries_and_attrs:
  assumes "has_getitem m"
  shows "(\<exists>sd h'. SpaceData_init h [PyRef p] [(''attrs'', m)] = Inr (sd, h') \<and>
            sd_items sd = deref h p \<and> sd_attrs sd = m \<and> mapping_of h' m = mapping_of h m) \<and>
         (\<exists>sd h'. SpaceData_init h [] [(''attrs'', m)] = Inr (sd, h') \<and>
            sd_items sd = [] \<and> sd_attrs sd = m \<and> mapping_of h' m = mapping_of h m)"
proof -
  have k: "map_of [(''attrs'', m)] ''attrs'' = Some m" by simp
  have d: "AList.delete ''attrs'' [(''attrs'', m)] = []" by (simp add: AList.delete_eq)
  show ?thesis
    using assms
    by (simp add: SpaceData_init_keyword [OF k] d dict_update_Nil mapping_of_new_dict)
qed

theorem SpaceData_init_stores_entries_and_attrs_witness:
  "has_getitem (PyRef 1) \<and>
   (\<exists>sd h'. SpaceData_init [[(''x'', PyInt 1)], [(''unit'', PyStr ''km'')]] [PyRef 0]
               [(''attrs'', PyRef 1)] = Inr (sd, h') \<and>
      map_of (sd_items sd) ''x'' = Some (PyInt 1) \<and>
      mapping_of h' (sd_attrs sd) = Some [''unit'' \<mapsto> PyStr ''km'']) \<and>
   (\<exists>sd h'. SpaceData_init [[(''x'', PyInt 1)], [(''unit'', PyStr ''km'')]] []
               [(''attrs'', PyRef 1)] = Inr (sd, h') \<and>
      sd_items sd = [] \<and>
      mapping_of h' (sd_attrs sd) = Some [''unit'' \<mapsto> PyStr ''km''])"
proof -
  have h: "has_getitem (PyRef 1)" by simp
  have m: "mapping_of [[(''x'', PyInt 1)], [(''unit'', PyStr ''km'')]] (PyRef 1)
             = Some [''unit'' \<mapsto> PyStr ''km'']"
    by (simp add: mapping_of_def deref_def)
  have x: "map_of (deref [[(''x'', PyInt 1)], [(''unit'', PyStr ''km'')]] 0) ''x'' = Some (PyInt 1)"
    by (simp add: deref_def)
  show ?thesis
    using h m x
      SpaceData_init_stores_entries_and_attrs [OF h,
        of "[[(''x'', PyInt 1)], [(''unit'', PyStr ''km'')]]" 0]
    by auto
qed


text \<open>
  Claim C9.  When the call has a keyword \<^verbatim>\<open>attrs\<close> with value \<open>m\<close>, and \<^verbatim>\<open>dict\<close> accepts the
  positional arguments, \<^verbatim>\<open>SpaceData.__init__\<close> returns; the items are those of the
  positional arguments updated with the keywords other than \<^verbatim>\<open>attrs\<close>, so \<^verbatim>\<open>attrs\<close> is a key
  of the content only if the positional arguments make it one; and the attribute \<^verbatim>\<open>attrs\<close>
  is \<open>m\<close> if \<open>m\<close> supports item access, and the new empty dictionary otherwise.
\<close>

theorem SpaceData_init_removes_attrs_keyword:
  assumes "map_of kwargs ''attrs'' = Some m"
      and "dict_init h args [] = Inr c0"
  shows "\<exists>sd h'. SpaceData_init h args kwargs = Inr (sd, h') \<and>
           sd_items sd = dict_update c0 (AList.delete ''attrs'' kwargs) \<and>
           ''attrs'' \<notin> fst ` set (AList.delete ''attrs'' kwargs) \<and>
           (''attrs'' \<in> fst ` set (sd_items sd) \<longleftrightarrow> ''attrs'' \<in> fst ` set c0) \<and>
           sd_attrs sd = (if has_getitem m then m else PyRef (length h)) \<and>
           mapping_of h' (PyRef (length h)) = Some Map.empty"
proof -
  let ?kw = "AList.delete ''attrs'' kwargs"
  let ?sd = "\<lparr>sd_items = dict_update c0 ?kw,
              sd_attrs = (if has_getitem m then m else PyRef (length h))\<rparr>"
  have init: "SpaceData_init h args kwargs = Inr (?sd, h @ [[]])"
    by (simp add: SpaceData_init_keyword [OF assms(1)] dict_init_split [OF assms(2)])
  have keys: "''attrs'' \<in> fst ` set (dict_update c0 ?kw) \<longleftrightarrow> ''attrs'' \<in> fst ` set c0"
    using attrs_not_in_delete [of kwargs] by (simp add: keys_dict_update)
  have empty: "mapping_of (h @ [[]]) (PyRef (length h)) = Some Map.empty"
    by (simp add: mapping_of_def deref_def)
  show ?thesis
    using init keys empty attrs_not_in_delete [of kwargs] by simp
qed

theorem SpaceData_init_removes_attrs_keyword_witness:
  "map_of [(''y'', PyInt 2), (''attrs'', PyInt 5)] ''attrs'' = Some (PyInt 5) \<and>
   dict_init [] [] [] = Inr [] \<and>
   (\<exists>sd h'. SpaceData_init [] [] [(''y'', PyInt 2), (''attrs'', PyInt 5)] = Inr (sd, h') \<and>
      sd_items sd = [(''y'', PyInt 2)] \<and> sd_attrs sd = PyRef 0 \<and>
      mapping_of h' (PyRef 0) = Some Map.empty)"
proof -
  have k: "map_of [(''y'', PyInt 2), (''attrs'', PyInt 5)] ''attrs'' = Some (PyInt 5)" by simp
  have d: "dict_init [] [] [] = Inr []" by (simp add: dict_update_Nil)
  have c: "dict_update [] (AList.delete ''attrs'' [(''y'', PyInt 2), (''attrs'', PyInt 5)])
             = [(''y'', PyInt 2)]"
    by (simp add: AList.delete_eq dict_update_def)
  show ?thesis
    using k d c SpaceData_init_removes_attrs_keyword [OF k d] by auto
qed

text \<open>
  Claim C10.  Without a keyword \<^verbatim>\<open>attrs\<close>, \<^verbatim>\<open>SpaceData(d, **kwargs)\<close> for a dictionary \<open>d\<close>
  keeps under the key \<^verbatim>\<open>attrs\<close> whatever \<open>d\<close> has there (in \<^verbatim>\<open>SpaceData({"attrs": 5})\<close>,
  the value 5), and the attribute \<^verbatim>\<open>attrs\<close> is the new empty dictionary.
\<close>

theorem SpaceData_init_positional_attrs_key:
  assumes "''attrs'' \<notin> fst ` set kwargs"
  shows "\<exists>sd h'. SpaceData_init h [PyRef p] kwargs = Inr (sd, h') \<and>
           map_of (sd_items sd) ''attrs'' = map_of (deref h p) ''attrs'' \<and>
           sd_attrs sd = PyRef (length h) \<and>
           mapping_of h' (sd_attrs sd) = Some Map.empty"
proof -
  have "mapping_of (h @ [[]]) (PyRef (length h)) = Some Map.empty"
    by (simp add: mapping_of_def deref_def)
  then show ?thesis
    using assms
    by (simp add: SpaceData_init_no_keyword map_of_dict_update_other)
qed

theorem SpaceData_init_positional_attrs_key_witness:
  "''attrs'' \<notin> fst ` set ([] :: (string \<times> pyval) list) \<and>
   (\<exists>sd h'. SpaceData_init [[(''attrs'', PyInt 5)]] [PyRef 0] [] = Inr (sd, h') \<and>
      map_of (sd_items sd) ''attrs'' = Some (PyInt 5) \<and>
      mapping_of h' (sd_attrs sd) = Some Map.empty)"
proof -
  have h: "''attrs'' \<notin> fst ` set ([] :: (string \<times> pyval) list)" by simp
  have x: "map_of (deref [[(''attrs'', PyInt 5)]] 0) ''attrs'' = Some (PyInt 5)"
    by (simp add: deref_def)
  show ?thesis
    using h x SpaceData_init_positional_attrs_key [OF h, of "[[(''attrs'', PyInt 5)]]" 0]
    by auto
qed


end
